theory Spec2Isabelle
  imports Main
begin

section \<open>The worker service example: \<open>services/worker/main.py\<close>\<close>

subsection \<open>Python values and exceptions\<close>

text \<open>
  The exceptions of the model. \<open>TypeError\<close> carries its message. \<open>KeyboardInterrupt\<close>
  and \<open>SystemExit\<close> derive from \<open>BaseException\<close> only, so that the clause
  \<open>except Exception\<close> has the meaning it has in Python: it does not catch them.
  \<open>UserException\<close> is an instance of a user-defined subclass of \<open>Exception\<close>; it
  carries what its \<open>__str__\<close> does: return a string, or raise.
\<close>

datatype exc =
    TypeError string
  | KeyboardInterrupt
  | SystemExit
  | UserException "exc + string"

fun is_Exception :: "exc \<Rightarrow> bool" where
  "is_Exception (TypeError m) = True"
| "is_Exception KeyboardInterrupt = False"
| "is_Exception SystemExit = False"
| "is_Exception (UserException r) = True"

text \<open>
  \<open>str(e)\<close>, as the f-string \<open>{e}\<close> renders an exception: the message, or the
  exception that \<open>__str__\<close> raises.
\<close>

fun exc_str :: "exc \<Rightarrow> exc + string" where
  "exc_str (TypeError m) = Inr m"
| "exc_str KeyboardInterrupt = Inr []"
| "exc_str SystemExit = Inr []"
| "exc_str (UserException r) = r"

text \<open>
  The parameter \<open>data\<close> is annotated \<open>Dict[str, any]\<close>, which Python does not enforce,
  so the functions are modelled on the values a caller can pass: \<open>None\<close>, booleans,
  integers, strings, lists, dictionaries, and objects of user-defined classes. A
  dictionary is an association list in insertion order; its keys and values are values
  again. An object carries the name of its class and what its \<open>__contains__\<close> does for
  a string key: the outcome listed for that key, or else the default outcome; an
  outcome is the truth value of the result, or the exception raised.
\<close>

datatype pyval =
    PNone
  | PBool bool
  | PInt int
  | PStr string
  | PList "pyval list"
  | PDict "(pyval \<times> pyval) list"
  | PObj string "(string \<times> (exc + bool)) list" "exc + bool"

text \<open>\<open>type(v).__name__\<close>\<close>

fun type_name :: "pyval \<Rightarrow> string" where
  "type_name PNone = ''NoneType''"
| "type_name (PBool b) = ''bool''"
| "type_name (PInt i) = ''int''"
| "type_name (PStr s) = ''str''"
| "type_name (PList xs) = ''list''"
| "type_name (PDict kvs) = ''dict''"
| "type_name (PObj cls tbl dflt) = cls"

subsection \<open>The operator \<open>in\<close> with a string on the left\<close>

fun starts_with :: "string \<Rightarrow> string \<Rightarrow> bool" where
  "starts_with s [] = True"
| "starts_with [] (k # ks) = False"
| "starts_with (c # cs) (k # ks) = (c = k \<and> starts_with cs ks)"

text \<open>Substring test: \<open>k in s\<close> for two strings.\<close>

fun str_contains :: "string \<Rightarrow> string \<Rightarrow> bool" where
  "str_contains [] k = (k = [])"
| "str_contains (c # cs) k = (starts_with (c # cs) k \<or> str_contains cs k)"

text \<open>
  \<open>k in data\<close> for a string \<open>k\<close>: key membership in a dictionary, element membership
  in a list, substring test in a string, the object's own \<open>__contains__\<close> for an
  object, and a \<open>TypeError\<close> for a value that is no container (the message is
  CPython's).
\<close>

fun py_in :: "string \<Rightarrow> pyval \<Rightarrow> exc + bool" where
  "py_in k (PDict kvs) = Inr (PStr k \<in> set (map fst kvs))"
| "py_in k (PList xs) = Inr (PStr k \<in> set xs)"
| "py_in k (PStr s) = Inr (str_contains s k)"
| "py_in k (PObj cls tbl dflt) = (case map_of tbl k of Some r \<Rightarrow> r | None \<Rightarrow> dflt)"
| "py_in k v =
     Inl (TypeError (''argument of type '' @ [CHR 0x27] @ type_name v @ [CHR 0x27]
                     @ '' is not iterable''))"

subsection \<open>The state\<close>

text \<open>
  Python passes \<open>data\<close> by reference. The state holds the object that the parameter
  \<open>data\<close> refers to and the lines printed to standard output so far; each function
  takes the state and returns its result together with the state after the call.
  Standard output is an open, writable stream: \<open>print\<close> appends its line.
\<close>

record world =
  data_obj :: pyval
  stdout :: "string list"

definition print :: "string \<Rightarrow> world \<Rightarrow> world" where
  "print line w = w\<lparr>stdout := stdout w @ [line]\<rparr>"

subsection \<open>\<open>validate_data\<close>\<close>

definition required_fields :: "string list" where
  "required_fields = [''id'', ''timestamp'', ''payload'']"

text \<open>
  \<open>all(field in data for field in required_fields)\<close>: the generator is consumed in order,
  \<open>all\<close> stops at the first false test, and an exception of a test propagates.
\<close>

fun all_in :: "string list \<Rightarrow> pyval \<Rightarrow> exc + bool" where
  "all_in [] d = Inr True"
| "all_in (field # rest) d =
     (case py_in field d of
        Inl e \<Rightarrow> Inl e
      | Inr b \<Rightarrow> if b then all_in rest d else Inr False)"

definition validate_data :: "world \<Rightarrow> (exc + bool) \<times> world" where
  "validate_data w = (all_in required_fields (data_obj w), w)"

subsection \<open>\<open>store_data\<close>\<close>

definition store_data :: "world \<Rightarrow> (exc + pyval) \<times> world" where
  "store_data w = (Inr PNone, w)"

subsection \<open>\<open>process_data\<close>\<close>

text \<open>
  The statements of the \<open>try\<close> block: validation, then storage of a valid record. An
  exception of either step ends the block.
\<close>

definition processing_step :: "world \<Rightarrow> (exc + bool) \<times> world" where
  "processing_step w =
     (case validate_data w of
        (Inl e, w1) \<Rightarrow> (Inl e, w1)
      | (Inr result, w1) \<Rightarrow>
          if result
          then (case store_data w1 of
                  (Inl e, w2) \<Rightarrow> (Inl e, w2)
                | (Inr u, w2) \<Rightarrow> (Inr True, w2))
          else (Inr False, w1))"

text \<open>
  The handler of \<open>except Exception as e\<close>: an exception that is no instance of
  \<open>Exception\<close> is not caught and propagates. A caught one is rendered into the
  message, the message is printed and the result is \<open>False\<close>; an exception raised
  while rendering leaves the handler.
\<close>

definition handler :: "exc \<Rightarrow> world \<Rightarrow> (exc + bool) \<times> world" where
  "handler e w =
     (if is_Exception e
      then (case exc_str e of
              Inl e' \<Rightarrow> (Inl e', w)
            | Inr msg \<Rightarrow> (Inr False, print (''Error processing data: '' @ msg) w))
      else (Inl e, w))"

definition process_data :: "world \<Rightarrow> (exc + bool) \<times> world" where
  "process_data w =
     (case processing_step w of
        (Inl e, w1) \<Rightarrow> handler e w1
      | (Inr b, w1) \<Rightarrow> (Inr b, w1))"

subsection \<open>The driver block\<close>

definition sample_data :: pyval where
  "sample_data = PDict
     [(PStr ''id'', PStr ''123''),
      (PStr ''timestamp'', PStr ''2025-01-15T10:00:00Z''),
      (PStr ''payload'', PDict [(PStr ''value'', PInt 42)])]"

text \<open>
  The module body below the definitions, for a given value of \<open>__name__\<close> and the
  output printed so far; it returns the exception that ends the script, if any, and
  the output.
\<close>

definition main :: "string \<Rightarrow> string list \<Rightarrow> (exc + unit) \<times> string list" where
  "main name out =
     (if name = ''__main__''
      then (case process_data \<lparr>data_obj = sample_data, stdout = out\<rparr> of
              (Inl e, w) \<Rightarrow> (Inl e, stdout w)
            | (Inr success, w) \<Rightarrow>
                (Inr (),
                 stdout (print (''Processing '' @ (if success then ''succeeded'' else ''failed'')) w)))
      else (Inr (), out))"

subsection \<open>Keys of a record\<close>

text \<open>The key set of a dictionary, \<open>set(d.keys())\<close>; empty for a value that is no dictionary.\<close>

fun keys :: "pyval \<Rightarrow> pyval set" where
  "keys (PDict kvs) = set (map fst kvs)"
| "keys v = {}"

section \<open>Properties\<close>

subsection \<open>Auxiliary facts\<close>

lemma all_in_dict:
  "all_in fs (PDict kvs) = Inr (\<forall>f \<in> set fs. PStr f \<in> set (map fst kvs))"
  by (induction fs) auto

text \<open>
  \<open>store_data\<close> returns normally, so the \<open>try\<close> block ends as the validation does.
\<close>

lemma processing_step_unfold:
  "processing_step w = (all_in required_fields (data_obj w), w)"
  by (simp add: processing_step_def validate_data_def store_data_def split: sum.split)

lemma process_data_unfold:
  "process_data w =
     (case all_in required_fields (data_obj w) of
        Inl e \<Rightarrow> handler e w
      | Inr b \<Rightarrow> (Inr b, w))"
  by (simp add: process_data_def processing_step_unfold split: sum.split)

lemma validate_data_dict:
  "validate_data \<lparr>data_obj = PDict kvs, stdout = out\<rparr> =
     (Inr (PStr ''id'' \<in> keys (PDict kvs) \<and> PStr ''timestamp'' \<in> keys (PDict kvs)
           \<and> PStr ''payload'' \<in> keys (PDict kvs)),
      \<lparr>data_obj = PDict kvs, stdout = out\<rparr>)"
  by (simp add: validate_data_def required_fields_def all_in_dict)

subsection \<open>Validation\<close>

text \<open>
  Claim C1. For every dictionary \<open>d\<close>, whatever its values and its other keys,
  \<open>validate_data(d)\<close> returns a boolean, and that boolean is \<open>True\<close> exactly when
  \<open>'id'\<close>, \<open>'timestamp'\<close> and \<open>'payload'\<close> are all keys of \<open>d\<close>.
\<close>

theorem validate_data_iff_required_keys:
  "fst (validate_data \<lparr>data_obj = PDict kvs, stdout = out\<rparr>) =
     Inr (PStr ''id'' \<in> keys (PDict kvs) \<and> PStr ''timestamp'' \<in> keys (PDict kvs)
          \<and> PStr ''payload'' \<in> keys (PDict kvs))"
  by (simp add: validate_data_dict)

text \<open>
  Claim C6. The result of \<open>validate_data\<close> depends only on the key set of its argument:
  two dictionaries with the same keys get the same result, whatever their values
  (and whatever has been printed before).
\<close>

theorem validate_data_depends_on_keys_only:
  "keys (PDict kvs) = keys (PDict kvs') \<Longrightarrow>
   fst (validate_data \<lparr>data_obj = PDict kvs, stdout = out\<rparr>) =
   fst (validate_data \<lparr>data_obj = PDict kvs', stdout = out'\<rparr>)"
  by (simp only: validate_data_dict fst_conv)

theorem validate_data_depends_on_keys_only_witness:
  "keys (PDict [(PStr ''id'', PInt 1), (PStr ''timestamp'', PInt 2), (PStr ''payload'', PInt 3)]) =
   keys (PDict [(PStr ''payload'', PNone), (PStr ''id'', PStr ''x''), (PStr ''timestamp'', PList [])]) \<and>
   fst (validate_data
          \<lparr>data_obj = PDict [(PStr ''id'', PInt 1), (PStr ''timestamp'', PInt 2),
                              (PStr ''payload'', PInt 3)],
           stdout = []\<rparr>) =
   fst (validate_data
          \<lparr>data_obj = PDict [(PStr ''payload'', PNone), (PStr ''id'', PStr ''x''),
                              (PStr ''timestamp'', PList [])],
           stdout = [''earlier output'']\<rparr>)"
proof -
  have same_keys:
    "keys (PDict [(PStr ''id'', PInt 1), (PStr ''timestamp'', PInt 2), (PStr ''payload'', PInt 3)]) =
     keys (PDict [(PStr ''payload'', PNone), (PStr ''id'', PStr ''x''), (PStr ''timestamp'', PList [])])"
    by auto
  from same_keys
    validate_data_depends_on_keys_only [OF same_keys, of "[]" "[''earlier output'']"]
  show ?thesis by (rule conjI)
qed

subsection \<open>Storage\<close>

text \<open>
  Claim C7. \<open>store_data\<close> is a stub: for every input it returns \<open>None\<close>, raises nothing
  and leaves the state (the argument object and the output) as it was.
\<close>

theorem store_data_is_stub: "store_data w = (Inr PNone, w)"
  by (simp add: store_data_def)

subsection \<open>Processing\<close>

text \<open>
  Claim C2. A dictionary that has the three required keys is accepted:
  \<open>process_data\<close> returns \<open>True\<close>. A dictionary that lacks at least one of them is
  rejected: \<open>process_data\<close> returns \<open>False\<close>.
\<close>

theorem process_data_accepts_iff_required_keys:
  "({PStr ''id'', PStr ''timestamp'', PStr ''payload''} \<subseteq> keys (PDict kvs) \<longrightarrow>
      fst (process_data \<lparr>data_obj = PDict kvs, stdout = out\<rparr>) = Inr True) \<and>
   (\<not> {PStr ''id'', PStr ''timestamp'', PStr ''payload''} \<subseteq> keys (PDict kvs) \<longrightarrow>
      fst (process_data \<lparr>data_obj = PDict kvs, stdout = out\<rparr>) = Inr False)"
  by (auto simp add: process_data_unfold required_fields_def all_in_dict)

theorem process_data_accepts_iff_required_keys_witness:
  "{PStr ''id'', PStr ''timestamp'', PStr ''payload''} \<subseteq>
     keys (PDict [(PStr ''id'', PInt 7), (PStr ''timestamp'', PInt 0), (PStr ''payload'', PNone)]) \<and>
   fst (process_data
          \<lparr>data_obj = PDict [(PStr ''id'', PInt 7), (PStr ''timestamp'', PInt 0),
                              (PStr ''payload'', PNone)],
           stdout = []\<rparr>) = Inr True \<and>
   \<not> {PStr ''id'', PStr ''timestamp'', PStr ''payload''} \<subseteq>
     keys (PDict [(PStr ''id'', PInt 7), (PStr ''timestamp'', PInt 0)]) \<and>
   fst (process_data
          \<lparr>data_obj = PDict [(PStr ''id'', PInt 7), (PStr ''timestamp'', PInt 0)],
           stdout = []\<rparr>) = Inr False"
proof -
  have complete:
    "{PStr ''id'', PStr ''timestamp'', PStr ''payload''} \<subseteq>
       keys (PDict [(PStr ''id'', PInt 7), (PStr ''timestamp'', PInt 0), (PStr ''payload'', PNone)])"
    by simp
  have incomplete:
    "\<not> {PStr ''id'', PStr ''timestamp'', PStr ''payload''} \<subseteq>
       keys (PDict [(PStr ''id'', PInt 7), (PStr ''timestamp'', PInt 0)])"
    by simp
  note accepted =
    process_data_accepts_iff_required_keys [THEN conjunct1, rule_format, OF complete, of "[]"]
  note rejected =
    process_data_accepts_iff_required_keys [THEN conjunct2, rule_format, OF incomplete, of "[]"]
  from complete accepted incomplete rejected show ?thesis by blast
qed

text \<open>
  Claim C3, amended. A failure raised inside the processing step (validation or
  storage) that is an instance of \<open>Exception\<close> is caught: once its message is rendered,
  \<open>process_data\<close> prints the line \<open>Error processing data: ...\<close> with that message and
  returns \<open>False\<close>. A failure that derives from \<open>BaseException\<close> only, such as
  \<open>KeyboardInterrupt\<close> or \<open>SystemExit\<close>, is not caught: it leaves \<open>process_data\<close>
  and nothing is printed.
\<close>

theorem process_data_catches_Exception_only:
  "(\<forall>e msg. fst (processing_step w) = Inl e \<and> is_Exception e \<and> exc_str e = Inr msg \<longrightarrow>
      process_data w = (Inr False, print (''Error processing data: '' @ msg) w)) \<and>
   (\<forall>e. fst (processing_step w) = Inl e \<and> \<not> is_Exception e \<longrightarrow>
      process_data w = (Inl e, w))"
  by (simp add: process_data_def processing_step_unfold handler_def)

theorem process_data_catches_Exception_only_witness:
  "fst (processing_step \<lparr>data_obj = PNone, stdout = []\<rparr>) =
     Inl (TypeError (''argument of type '' @ [CHR 0x27] @ ''NoneType'' @ [CHR 0x27]
                     @ '' is not iterable'')) \<and>
   process_data \<lparr>data_obj = PNone, stdout = []\<rparr> =
     (Inr False,
      \<lparr>data_obj = PNone,
       stdout = [''Error processing data: argument of type '' @ [CHR 0x27] @ ''NoneType''
                 @ [CHR 0x27] @ '' is not iterable'']\<rparr>) \<and>
   fst (processing_step
          \<lparr>data_obj = PObj ''Quitter'' [(''id'', Inr True)] (Inl SystemExit), stdout = []\<rparr>) =
     Inl SystemExit \<and>
   process_data \<lparr>data_obj = PObj ''Quitter'' [(''id'', Inr True)] (Inl SystemExit), stdout = []\<rparr> =
     (Inl SystemExit,
      \<lparr>data_obj = PObj ''Quitter'' [(''id'', Inr True)] (Inl SystemExit), stdout = []\<rparr>)"
proof -
  have raised:
    "fst (processing_step \<lparr>data_obj = PNone, stdout = []\<rparr>) =
       Inl (TypeError (''argument of type '' @ [CHR 0x27] @ ''NoneType'' @ [CHR 0x27]
                       @ '' is not iterable'')) \<and>
     is_Exception (TypeError (''argument of type '' @ [CHR 0x27] @ ''NoneType'' @ [CHR 0x27]
                       @ '' is not iterable'')) \<and>
     exc_str (TypeError (''argument of type '' @ [CHR 0x27] @ ''NoneType'' @ [CHR 0x27]
                       @ '' is not iterable'')) =
       Inr (''argument of type '' @ [CHR 0x27] @ ''NoneType'' @ [CHR 0x27]
            @ '' is not iterable'')"
    by (simp add: processing_step_unfold required_fields_def)
  have quit:
    "fst (processing_step
            \<lparr>data_obj = PObj ''Quitter'' [(''id'', Inr True)] (Inl SystemExit), stdout = []\<rparr>) =
       Inl SystemExit \<and> \<not> is_Exception SystemExit"
    by (simp add: processing_step_unfold required_fields_def)
  note caught =
    process_data_catches_Exception_only [THEN conjunct1, rule_format, OF raised]
  note passed =
    process_data_catches_Exception_only [THEN conjunct2, rule_format, OF quit]
  from raised caught quit passed show ?thesis by (simp add: print_def)
qed

text \<open>
  The claim as first stated, that \<open>process_data\<close> never propagates an exception, fails
  for an object whose \<open>__contains__\<close> raises \<open>KeyboardInterrupt\<close>: the exception
  leaves \<open>process_data\<close> and no line is printed.
\<close>

theorem process_data_propagates_KeyboardInterrupt:
  "fst (process_data \<lparr>data_obj = PObj ''Interrupting'' [] (Inl KeyboardInterrupt), stdout = []\<rparr>) =
     Inl KeyboardInterrupt \<and>
   stdout (snd (process_data
                  \<lparr>data_obj = PObj ''Interrupting'' [] (Inl KeyboardInterrupt), stdout = []\<rparr>)) = []"
  by (simp add: process_data_unfold required_fields_def handler_def)

text \<open>
  Claim C4. For every dictionary \<open>d\<close>, \<open>process_data(d)\<close> returns exactly what
  \<open>validate_data(d)\<close> returns, and the two calls leave the same state: the exception
  branch is not taken, so nothing is printed.
\<close>

theorem process_data_eq_validate_data:
  "process_data \<lparr>data_obj = PDict kvs, stdout = out\<rparr> =
   validate_data \<lparr>data_obj = PDict kvs, stdout = out\<rparr>"
  by (simp add: process_data_unfold validate_data_def all_in_dict)

text \<open>
  Claim C8. \<open>process_data\<close> is deterministic and reads no shared state: two runs on
  equal arguments return the same result, whatever the rest of the state is.
\<close>

theorem process_data_deterministic:
  "data_obj w1 = data_obj w2 \<Longrightarrow> fst (process_data w1) = fst (process_data w2)"
  by (auto simp add: process_data_unfold handler_def split: sum.splits)

theorem process_data_deterministic_witness:
  "data_obj \<lparr>data_obj = sample_data, stdout = []\<rparr> =
   data_obj \<lparr>data_obj = sample_data, stdout = [''earlier output'']\<rparr> \<and>
   fst (process_data \<lparr>data_obj = sample_data, stdout = []\<rparr>) =
   fst (process_data \<lparr>data_obj = sample_data, stdout = [''earlier output'']\<rparr>)"
proof -
  have same_arg:
    "data_obj \<lparr>data_obj = sample_data, stdout = []\<rparr> =
     data_obj \<lparr>data_obj = sample_data, stdout = [''earlier output'']\<rparr>"
    by simp
  from same_arg process_data_deterministic [OF same_arg] show ?thesis by (rule conjI)
qed

text \<open>
  Claim C9. No operation mutates its input: after a call of \<open>process_data\<close>,
  \<open>validate_data\<close> or \<open>store_data\<close> the argument object is the one it was before the
  call, with the same keys and the same values.
\<close>

theorem operations_do_not_mutate_input:
  "data_obj (snd (process_data w)) = data_obj w \<and>
   data_obj (snd (validate_data w)) = data_obj w \<and>
   data_obj (snd (store_data w)) = data_obj w"
  by (auto simp add: process_data_unfold validate_data_def store_data_def handler_def print_def
      split: sum.splits)

subsection \<open>The driver block\<close>

text \<open>
  Claim C5. Run as a script (\<open>__name__\<close> is \<open>'__main__'\<close>), the driver block builds a
  sample record whose keys are \<open>'id'\<close>, \<open>'timestamp'\<close> and \<open>'payload'\<close>, processing that
  record succeeds, and the script ends normally having printed the one line
  \<open>Processing succeeded\<close>.
\<close>

theorem main_prints_succeeded:
  "keys sample_data = {PStr ''id'', PStr ''timestamp'', PStr ''payload''} \<and>
   fst (process_data \<lparr>data_obj = sample_data, stdout = out\<rparr>) = Inr True \<and>
   main ''__main__'' out = (Inr (), out @ [''Processing succeeded''])"
  by (simp add: main_def process_data_unfold sample_data_def required_fields_def print_def)

end
